theory Spec2Isabelle
  imports Complex_Main
begin

section \<open>k-means clustering (hard assignment)\<close>

text \<open>
  The embedding follows the class \<open>KMeans\<close> of
  \<open>UnsupervisedLearning/Clustering/algorithms/hard_assignment.py\<close>.

  A matrix (the sparse data matrix, a dense centroid array, a distance table) is the list
  of its rows, a row is a list of reals. Arithmetic is exact: the floating-point numbers
  of the source are read as real numbers, and rounding is not modelled. An exception of
  Python is a value on the left of a sum. The numbers \<open>k\<close>, \<open>maxiter\<close> and \<open>num_runs\<close> are
  Python integers, so they may be zero or negative. Printing (\<open>verbose\<close>) and plotting
  change no result and are left out.
\<close>

type_synonym point = "real list"
type_synonym matrix = "real list list"

datatype error = ValueError | IndexError | ZeroDivisionError

subsection \<open>Library primitives the class calls\<close>

text \<open>
  \<open>pairwise_distances(X, Y, metric='euclidean')\<close> of scikit-learn: the table of the
  Euclidean distances between the rows of \<open>X\<close> and the rows of \<open>Y\<close>. It rejects an array
  without rows or without columns and two arrays whose column counts differ
  (\<open>ValueError\<close>).
\<close>

definition sq_dist :: "point \<Rightarrow> point \<Rightarrow> real" where
  "sq_dist x y = (\<Sum>(a, b) \<leftarrow> zip x y. (a - b)\<^sup>2)"

definition euclidean :: "point \<Rightarrow> point \<Rightarrow> real" where
  "euclidean x y = sqrt (sq_dist x y)"

definition compatible :: "matrix \<Rightarrow> matrix \<Rightarrow> bool" where
  "compatible X Y \<longleftrightarrow>
     X \<noteq> [] \<and> Y \<noteq> [] \<and> list_all (\<lambda>x. list_all (\<lambda>y. length x = length y \<and> 0 < length x) Y) X"

definition pairwise_distances :: "matrix \<Rightarrow> matrix \<Rightarrow> error + matrix" where
  "pairwise_distances X Y =
     (if compatible X Y then Inr (map (\<lambda>x. map (\<lambda>y. euclidean x y) Y) X)
      else Inl ValueError)"

text \<open>
  \<open>np.argmin\<close> on one row: the index of the first occurrence of the minimum; an empty
  row is a \<open>ValueError\<close>.
\<close>

fun argmin_from :: "nat \<Rightarrow> real \<Rightarrow> nat \<Rightarrow> real list \<Rightarrow> nat" where
  "argmin_from bi bv i [] = bi"
| "argmin_from bi bv i (x # xs) =
     (if x < bv then argmin_from i x (Suc i) xs else argmin_from bi bv (Suc i) xs)"

definition argmin :: "real list \<Rightarrow> error + nat" where
  "argmin xs = (case xs of [] \<Rightarrow> Inl ValueError | x # r \<Rightarrow> Inr (argmin_from 0 x 1 r))"

text \<open>Sequencing: the first exception raised ends the computation.\<close>

definition bindE :: "error + 'a \<Rightarrow> ('a \<Rightarrow> error + 'b) \<Rightarrow> error + 'b" where
  "bindE m f = (case m of Inl e \<Rightarrow> Inl e | Inr x \<Rightarrow> f x)"

fun mapE :: "('a \<Rightarrow> error + 'b) \<Rightarrow> 'a list \<Rightarrow> error + 'b list" where
  "mapE f [] = Inr []"
| "mapE f (x # xs) =
     (case f x of Inl e \<Rightarrow> Inl e
      | Inr y \<Rightarrow> (case mapE f xs of Inl e \<Rightarrow> Inl e | Inr ys \<Rightarrow> Inr (y # ys)))"

subsection \<open>Assignment step\<close>

definition assign_clusters :: "matrix \<Rightarrow> matrix \<Rightarrow> error + nat list" where
  "assign_clusters data centroids =
     bindE (pairwise_distances data centroids) (\<lambda>distances. mapE argmin distances)"

subsection \<open>Update step\<close>

text \<open>
  \<open>data[cluster_assignment == i]\<close>: the rows of the data whose label is \<open>i\<close>, in order. A
  boolean mask selects rows only when it has one entry per row (\<open>IndexError\<close> otherwise).
\<close>

definition cluster_rows :: "matrix \<Rightarrow> nat list \<Rightarrow> nat \<Rightarrow> matrix" where
  "cluster_rows data cluster_assignment i =
     map fst (filter (\<lambda>(x, c). c = i) (zip data cluster_assignment))"

definition members :: "matrix \<Rightarrow> nat list \<Rightarrow> nat \<Rightarrow> error + matrix" where
  "members data cluster_assignment i =
     (if length cluster_assignment = length data
      then Inr (cluster_rows data cluster_assignment i)
      else Inl IndexError)"

text \<open>
  \<open>np.mean(member_data_points, axis=0)\<close> on a sparse matrix: every column's sum times
  \<open>1.0 / shape[0]\<close>. Without rows that quotient is a division by zero, so the mean of an
  empty cluster has no value.
\<close>

definition mean_axis0 :: "matrix \<Rightarrow> error + point" where
  "mean_axis0 rows =
     (if rows = [] then Inl ZeroDivisionError
      else Inr (map (\<lambda>j. (\<Sum>r \<leftarrow> rows. r ! j) / real (length rows)) [0..<length (hd rows)]))"

definition revise_centroids :: "matrix \<Rightarrow> int \<Rightarrow> nat list \<Rightarrow> error + matrix" where
  "revise_centroids data k cluster_assignment =
     mapE (\<lambda>i. bindE (members data cluster_assignment i) mean_axis0) [0..<nat k]"

subsection \<open>Heterogeneity\<close>

text \<open>
  The loop of \<open>compute_heterogeneity\<close> over the clusters \<open>i\<close>, with the accumulator
  \<open>heterogeneity\<close>. The row selection \<open>sel i\<close> stands for \<open>data[cluster_assignment == i, :]\<close>.
\<close>

fun heterogeneity_loop ::
  "(nat \<Rightarrow> error + matrix) \<Rightarrow> matrix \<Rightarrow> nat list \<Rightarrow> real \<Rightarrow> error + real" where
  "heterogeneity_loop sel centroids [] heterogeneity = Inr heterogeneity"
| "heterogeneity_loop sel centroids (i # rest) heterogeneity =
     bindE (sel i) (\<lambda>member_data_points.
       if 0 < length member_data_points then
         if i < length centroids then
           bindE (pairwise_distances member_data_points [centroids ! i]) (\<lambda>distances.
             heterogeneity_loop sel centroids rest
               (heterogeneity + (\<Sum>row \<leftarrow> distances. \<Sum>d \<leftarrow> row. d\<^sup>2)))
         else Inl IndexError
       else heterogeneity_loop sel centroids rest heterogeneity)"

definition compute_heterogeneity :: "matrix \<Rightarrow> int \<Rightarrow> matrix \<Rightarrow> nat list \<Rightarrow> error + real" where
  "compute_heterogeneity data k centroids cluster_assignment =
     heterogeneity_loop (members data cluster_assignment) centroids [0..<nat k] 0"

subsection \<open>Convergence loop\<close>

text \<open>
  The variables of \<open>run_kmeans\<close>. \<open>record_heterogeneity\<close> is the caller's list, which the
  loop extends in place. The last two fields are not variables of the source:
  \<open>iterations\<close> counts the loop bodies entered and \<open>stopped\<close> tells that the loop was left
  by \<open>break\<close>; the loop never reads them.
\<close>

record kmeans_state =
  centroids :: matrix
  prev_cluster_assignment :: "nat list option"
  cluster_assignment :: "nat list option"
  record_heterogeneity :: "real list option"
  iterations :: nat
  stopped :: bool

fun kmeans_loop :: "matrix \<Rightarrow> int \<Rightarrow> nat list \<Rightarrow> kmeans_state \<Rightarrow> error + kmeans_state" where
  "kmeans_loop data k [] st = Inr st"
| "kmeans_loop data k (itr # rest) st =
     bindE (assign_clusters data (centroids st)) (\<lambda>ca.
     bindE (revise_centroids data k ca) (\<lambda>cs.
       let st1 = st\<lparr>centroids := cs, cluster_assignment := Some ca,
                      iterations := Suc (iterations st)\<rparr>
       in if prev_cluster_assignment st \<noteq> None \<and> prev_cluster_assignment st = Some ca
          then Inr (st1\<lparr>stopped := True\<rparr>)
          else
            bindE (case record_heterogeneity st1 of
                     None \<Rightarrow> Inr None
                   | Some history \<Rightarrow>
                       bindE (compute_heterogeneity data k cs ca) (\<lambda>score.
                         Inr (Some (history @ [score])))) (\<lambda>history'.
              kmeans_loop data k rest
                (st1\<lparr>record_heterogeneity := history', prev_cluster_assignment := Some ca\<rparr>))))"

definition run_kmeans_state ::
  "matrix \<Rightarrow> int \<Rightarrow> matrix \<Rightarrow> int \<Rightarrow> real list option \<Rightarrow> error + kmeans_state" where
  "run_kmeans_state data k initial_centroids maxiter history =
     kmeans_loop data k [0..<nat maxiter]
       \<lparr>centroids = initial_centroids, prev_cluster_assignment = None,
        cluster_assignment = None, record_heterogeneity = history,
        iterations = 0, stopped = False\<rparr>"

text \<open>What \<open>run_kmeans\<close> returns, and the caller's list after the call.\<close>

definition run_kmeans ::
  "matrix \<Rightarrow> int \<Rightarrow> matrix \<Rightarrow> int \<Rightarrow> real list option \<Rightarrow> error + matrix \<times> nat list option" where
  "run_kmeans data k initial_centroids maxiter history =
     bindE (run_kmeans_state data k initial_centroids maxiter history) (\<lambda>st.
       Inr (centroids st, cluster_assignment st))"

definition recorded ::
  "matrix \<Rightarrow> int \<Rightarrow> matrix \<Rightarrow> int \<Rightarrow> real list \<Rightarrow> error + real list" where
  "recorded data k initial_centroids maxiter history =
     bindE (run_kmeans_state data k initial_centroids maxiter (Some history)) (\<lambda>st.
       case record_heterogeneity st of None \<Rightarrow> Inr history | Some h \<Rightarrow> Inr h)"

subsection \<open>Random numbers, time and the matrix library\<close>

text \<open>
  What the class takes from outside is a parameter of the model. \<open>'g\<close> is the state of
  NumPy's process-wide generator:
  \<^item> \<open>seeded s\<close>: the state after \<open>np.random.seed(s)\<close>;
  \<^item> \<open>draw_array g n k\<close>: \<open>np.random.randint(0, n, k)\<close>, the indices drawn and the next state;
  \<^item> \<open>draw_scalar g n\<close>: \<open>np.random.randint(n)\<close>;
  \<^item> \<open>draw_choice g n p\<close>: \<open>np.random.choice(n, 1, p=p)\<close>;
  \<^item> \<open>time_now i\<close>: \<open>int(time.time())\<close> as read in trial \<open>i\<close>;
  \<^item> \<open>rows_at_false m\<close>: the rows \<open>m[False, :]\<close>, which is what \<open>compute_heterogeneity\<close>
    selects when it is handed \<open>None\<close> for the assignment (\<open>None == i\<close> is \<open>False\<close>).
\<close>

record 'g library =
  seeded :: "int \<Rightarrow> 'g"
  draw_array :: "'g \<Rightarrow> nat \<Rightarrow> nat \<Rightarrow> nat list \<times> 'g"
  draw_scalar :: "'g \<Rightarrow> nat \<Rightarrow> nat \<times> 'g"
  draw_choice :: "'g \<Rightarrow> nat \<Rightarrow> real list \<Rightarrow> nat \<times> 'g"
  time_now :: "nat \<Rightarrow> int"
  rows_at_false :: "matrix \<Rightarrow> error + matrix"

text \<open>\<open>np.random.seed\<close> accepts the seeds from \<open>0\<close> to \<open>2**32 - 1\<close>.\<close>

definition random_seed :: "'g library \<Rightarrow> int \<Rightarrow> error + 'g" where
  "random_seed lib s = (if 0 \<le> s \<and> s < 2 ^ 32 then Inr (seeded lib s) else Inl ValueError)"

definition reseed :: "'g library \<Rightarrow> 'g \<Rightarrow> int option \<Rightarrow> error + 'g" where
  "reseed lib g seed = (case seed of None \<Rightarrow> Inr g | Some s \<Rightarrow> random_seed lib s)"

text \<open>
  \<open>np.random.randint(0, n, k)\<close> refuses a negative size, and an empty range when
  it has to draw from it.
\<close>

definition randint :: "'g library \<Rightarrow> 'g \<Rightarrow> nat \<Rightarrow> int \<Rightarrow> error + nat list \<times> 'g" where
  "randint lib g n k =
     (if k < 0 \<or> (n = 0 \<and> 0 < k) then Inl ValueError else Inr (draw_array lib g n (nat k)))"

definition row_at :: "matrix \<Rightarrow> nat \<Rightarrow> error + point" where
  "row_at data i = (if i < length data then Inr (data ! i) else Inl IndexError)"

subsection \<open>Centroid initialisation\<close>

definition get_initial_centroids ::
  "'g library \<Rightarrow> 'g \<Rightarrow> matrix \<Rightarrow> int \<Rightarrow> int option \<Rightarrow> error + matrix \<times> 'g" where
  "get_initial_centroids lib g data k seed =
     bindE (reseed lib g seed) (\<lambda>g1.
     bindE (randint lib g1 (length data) k) (\<lambda>(rand_indices, g2).
     bindE (mapE (row_at data) rand_indices) (\<lambda>cs. Inr (cs, g2))))"

text \<open>\<open>np.min(..., axis=1)\<close> on one row.\<close>

definition row_min :: "real list \<Rightarrow> error + real" where
  "row_min row = (case row of [] \<Rightarrow> Inl ValueError | x # r \<Rightarrow> Inr (fold min r x))"

text \<open>
  The loop of \<open>smart_initialize\<close> over \<open>i = 1, ..., k - 1\<close>. Its state is the array
  \<open>centroids\<close> (\<open>k\<close> rows, those from \<open>i\<close> on still zero), \<open>squared_distances\<close> and the
  generator. Probabilities that do not exist (a zero sum) are a \<open>ValueError\<close> of
  \<open>np.random.choice\<close>.
\<close>

fun smart_loop ::
  "'g library \<Rightarrow> matrix \<Rightarrow> nat list \<Rightarrow> matrix \<times> real list \<times> 'g \<Rightarrow> error + matrix \<times> 'g" where
  "smart_loop lib data [] (cs, squared_distances, g) = Inr (cs, g)"
| "smart_loop lib data (i # rest) (cs, squared_distances, g) =
     (if sum_list squared_distances = 0 then Inl ValueError
      else
        let (idx, g') = draw_choice lib g (length data)
                          (map (\<lambda>d. d / sum_list squared_distances) squared_distances)
        in bindE (row_at data idx) (\<lambda>c.
           let cs' = cs[i := c]
           in bindE (pairwise_distances data (take (Suc i) cs')) (\<lambda>distances.
              bindE (mapE row_min (map (map (\<lambda>d. d\<^sup>2)) distances)) (\<lambda>squared_distances'.
                smart_loop lib data rest (cs', squared_distances', g')))))"

definition smart_initialize ::
  "'g library \<Rightarrow> 'g \<Rightarrow> matrix \<Rightarrow> int \<Rightarrow> int option \<Rightarrow> error + matrix \<times> 'g" where
  "smart_initialize lib g data k seed =
     bindE (reseed lib g seed) (\<lambda>g1.
       if k < 0 \<or> data = [] then Inl ValueError
       else
         let zeros = replicate (nat k) (replicate (length (hd data)) 0);
             (idx, g2) = draw_scalar lib g1 (length data)
         in bindE (row_at data idx) (\<lambda>c.
            if k = 0 then Inl IndexError
            else
              let cs = zeros[0 := c]
              in bindE (pairwise_distances data (take 1 cs)) (\<lambda>distances.
                   smart_loop lib data [1..<nat k]
                     (cs, map (\<lambda>d. d\<^sup>2) (concat distances), g2))))"

subsection \<open>Multi-run driver\<close>

text \<open>
  The variables of \<open>kmeans_multiple_runs\<close>; \<open>float('inf')\<close> is \<open>None\<close> in
  \<open>min_heterogeneity_achieved\<close>.
\<close>

record runs_state =
  heterogeneity :: "int \<rightharpoonup> real"
  min_heterogeneity_achieved :: "real option"
  best_seed :: "int option"
  final_centroids :: "matrix option"
  final_cluster_assignment :: "nat list option"

definition final_heterogeneity ::
  "'g library \<Rightarrow> matrix \<Rightarrow> int \<Rightarrow> matrix \<Rightarrow> nat list option \<Rightarrow> error + real" where
  "final_heterogeneity lib data k cs ca =
     (case ca of
        Some a \<Rightarrow> compute_heterogeneity data k cs a
      | None \<Rightarrow> heterogeneity_loop (\<lambda>i. rows_at_false lib data) cs [0..<nat k] 0)"

definition below :: "real \<Rightarrow> real option \<Rightarrow> bool" where
  "below h m = (case m of None \<Rightarrow> True | Some v \<Rightarrow> h < v)"

text \<open>
  One trial, from the seed on: seed the generator, initialise, run k-means, and compute
  the heterogeneity of the result.
\<close>

definition run_trial ::
  "'g library \<Rightarrow> matrix \<Rightarrow> int \<Rightarrow> int \<Rightarrow> int \<Rightarrow> error + real \<times> matrix \<times> nat list option" where
  "run_trial lib data k maxiter seed =
     bindE (random_seed lib seed) (\<lambda>g.
     bindE (get_initial_centroids lib g data k (Some seed)) (\<lambda>(initial_centroids, g').
     bindE (run_kmeans data k initial_centroids maxiter None) (\<lambda>(cs, ca).
     bindE (final_heterogeneity lib data k cs ca) (\<lambda>h. Inr (h, cs, ca)))))"

fun runs_loop ::
  "'g library \<Rightarrow> matrix \<Rightarrow> int \<Rightarrow> int \<Rightarrow> int list option \<Rightarrow> nat list \<Rightarrow> runs_state
     \<Rightarrow> error + runs_state" where
  "runs_loop lib data k maxiter seed_list [] st = Inr st"
| "runs_loop lib data k maxiter seed_list (i # rest) st =
     bindE (case seed_list of
              Some l \<Rightarrow> if i < length l then Inr (l ! i) else Inl IndexError
            | None \<Rightarrow> Inr (time_now lib i)) (\<lambda>seed.
     bindE (run_trial lib data k maxiter seed) (\<lambda>(h, cs, ca).
       let st1 = st\<lparr>heterogeneity := (heterogeneity st)(seed \<mapsto> h)\<rparr>
       in runs_loop lib data k maxiter seed_list rest
            (if below h (min_heterogeneity_achieved st1)
             then st1\<lparr>min_heterogeneity_achieved := Some h, best_seed := Some seed,
                      final_centroids := Some cs, final_cluster_assignment := ca\<rparr>
             else st1)))"

definition kmeans_multiple_runs_state ::
  "'g library \<Rightarrow> matrix \<Rightarrow> int \<Rightarrow> int \<Rightarrow> int \<Rightarrow> int list option \<Rightarrow> error + runs_state" where
  "kmeans_multiple_runs_state lib data k maxiter num_runs seed_list =
     runs_loop lib data k maxiter seed_list [0..<nat num_runs]
       \<lparr>heterogeneity = Map.empty, min_heterogeneity_achieved = None, best_seed = None,
        final_centroids = None, final_cluster_assignment = None\<rparr>"

definition kmeans_multiple_runs ::
  "'g library \<Rightarrow> matrix \<Rightarrow> int \<Rightarrow> int \<Rightarrow> int \<Rightarrow> int list option
     \<Rightarrow> error + matrix option \<times> nat list option" where
  "kmeans_multiple_runs lib data k maxiter num_runs seed_list =
     bindE (kmeans_multiple_runs_state lib data k maxiter num_runs seed_list) (\<lambda>st.
       Inr (final_centroids st, final_cluster_assignment st))"

subsection \<open>A small deterministic library for concrete runs\<close>

text \<open>
  The generator state is a counter: seeding with \<open>s\<close> sets it to \<open>s\<close>, a uniform draw
  below \<open>n\<close> returns the counter modulo \<open>n\<close> and advances it, and a weighted draw returns the
  first index of largest probability. The clock stands still and \<open>m[False, :]\<close> has no rows.
\<close>

definition first_max :: "real list \<Rightarrow> nat" where
  "first_max p = (case p of [] \<Rightarrow> 0 | x # r \<Rightarrow> argmin_from 0 (- x) 1 (map uminus r))"

definition counter_library :: "nat library" where
  "counter_library =
     \<lparr>seeded = (\<lambda>s. nat s),
      draw_array = (\<lambda>g n k. (map (\<lambda>j. (g + j) mod n) [0..<k], g + k)),
      draw_scalar = (\<lambda>g n. (g mod n, Suc g)),
      draw_choice = (\<lambda>g n p. (first_max p, Suc g)),
      time_now = (\<lambda>i. 0),
      rows_at_false = (\<lambda>m. Inr [])\<rparr>"

subsection \<open>Notions for the statements\<close>



section \<open>Properties\<close>

subsection \<open>Sequencing and the library primitives\<close>

lemma bindE_Inl [simp]: "bindE (Inl e) f = Inl e"
  by (simp add: bindE_def)

lemma bindE_Inr [simp]: "bindE (Inr x) f = f x"
  by (simp add: bindE_def)

lemma bindE_eq_Inr: "bindE m f = Inr y \<longleftrightarrow> (\<exists>x. m = Inr x \<and> f x = Inr y)"
  by (cases m) simp_all

lemma mapE_Inr_length: "mapE f xs = Inr ys \<Longrightarrow> length ys = length xs"
  by (induction xs arbitrary: ys) (auto split: sum.splits)

lemma mapE_Inr_nth: "mapE f xs = Inr ys \<Longrightarrow> n < length xs \<Longrightarrow> f (xs ! n) = Inr (ys ! n)"
proof (induction xs arbitrary: ys n)
  case Nil
  then show ?case by simp
next
  case (Cons x xs)
  then show ?case by (cases n) (auto split: sum.splits)
qed

lemma mapE_total: "(\<And>x. x \<in> set xs \<Longrightarrow> \<exists>y. f x = Inr y) \<Longrightarrow> \<exists>ys. mapE f xs = Inr ys"
proof (induction xs)
  case Nil
  then show ?case by simp
next
  case (Cons x xs)
  then obtain y ys where "f x = Inr y" "mapE f xs = Inr ys" by force
  then show ?case by simp
qed

lemma argmin_from_first_min:
  assumes "length pre = i" "bi < i" "pre ! bi = bv"
    and "\<forall>j<i. bv \<le> pre ! j" and "\<forall>j<bi. bv < pre ! j"
  shows "argmin_from bi bv i xs < length (pre @ xs)
       \<and> (\<forall>j<length (pre @ xs). (pre @ xs) ! argmin_from bi bv i xs \<le> (pre @ xs) ! j)
       \<and> (\<forall>j<argmin_from bi bv i xs. (pre @ xs) ! argmin_from bi bv i xs < (pre @ xs) ! j)"
  using assms
proof (induction xs arbitrary: bi bv i pre)
  case Nil
  then show ?case by simp
next
  case (Cons x xs)
  let ?pre = "pre @ [x]"
  show ?case
  proof (cases "x < bv")
    case True
    have "argmin_from i x (Suc i) xs < length (?pre @ xs)
       \<and> (\<forall>j<length (?pre @ xs). (?pre @ xs) ! argmin_from i x (Suc i) xs \<le> (?pre @ xs) ! j)
       \<and> (\<forall>j<argmin_from i x (Suc i) xs. (?pre @ xs) ! argmin_from i x (Suc i) xs < (?pre @ xs) ! j)"
    proof (rule Cons.IH)
      show "length ?pre = Suc i" using Cons.prems by simp
      show "i < Suc i" by simp
      show "?pre ! i = x" using Cons.prems by (simp add: nth_append)
      show "\<forall>j<Suc i. x \<le> ?pre ! j"
        using Cons.prems True by (auto simp: nth_append less_Suc_eq)
      show "\<forall>j<i. x < ?pre ! j"
        using Cons.prems True by (auto simp: nth_append)
    qed
    with True show ?thesis by simp
  next
    case False
    have "argmin_from bi bv (Suc i) xs < length (?pre @ xs)
       \<and> (\<forall>j<length (?pre @ xs). (?pre @ xs) ! argmin_from bi bv (Suc i) xs \<le> (?pre @ xs) ! j)
       \<and> (\<forall>j<argmin_from bi bv (Suc i) xs. (?pre @ xs) ! argmin_from bi bv (Suc i) xs < (?pre @ xs) ! j)"
    proof (rule Cons.IH)
      show "length ?pre = Suc i" using Cons.prems by simp
      show "bi < Suc i" using Cons.prems by simp
      show "?pre ! bi = bv" using Cons.prems by (simp add: nth_append)
      show "\<forall>j<Suc i. bv \<le> ?pre ! j"
        using Cons.prems False by (auto simp: nth_append less_Suc_eq)
      show "\<forall>j<bi. bv < ?pre ! j"
        using Cons.prems by (auto simp: nth_append)
    qed
    with False show ?thesis by simp
  qed
qed

lemma argmin_first_min:
  assumes "xs \<noteq> []"
  shows "\<exists>m. argmin xs = Inr m \<and> m < length xs \<and> (\<forall>j<length xs. xs ! m \<le> xs ! j)
            \<and> (\<forall>j<m. xs ! m < xs ! j)"
proof -
  from assms obtain x r where xs: "xs = x # r" by (cases xs) auto
  have "argmin_from 0 x 1 r < length ([x] @ r)
       \<and> (\<forall>j<length ([x] @ r). ([x] @ r) ! argmin_from 0 x 1 r \<le> ([x] @ r) ! j)
       \<and> (\<forall>j<argmin_from 0 x 1 r. ([x] @ r) ! argmin_from 0 x 1 r < ([x] @ r) ! j)"
    by (rule argmin_from_first_min) simp_all
  then show ?thesis by (simp add: xs argmin_def)
qed

lemma assign_clusters_Inr:
  assumes "compatible data cs"
  shows "\<exists>a. assign_clusters data cs = Inr a \<and> length a = length data
     \<and> (\<forall>n<length data. a ! n < length cs
          \<and> (\<forall>j<length cs. euclidean (data ! n) (cs ! (a ! n)) \<le> euclidean (data ! n) (cs ! j))
          \<and> (\<forall>j<a ! n. euclidean (data ! n) (cs ! (a ! n)) < euclidean (data ! n) (cs ! j)))"
proof -
  let ?D = "map (\<lambda>x. map (\<lambda>y. euclidean x y) cs) data"
  from assms have ne: "cs \<noteq> []" by (simp add: compatible_def)
  have "\<exists>ys. mapE argmin ?D = Inr ys"
  proof (rule mapE_total)
    fix row assume "row \<in> set ?D"
    then have "row \<noteq> []" using ne by auto
    then show "\<exists>y. argmin row = Inr y" using argmin_first_min by blast
  qed
  then obtain a where a: "mapE argmin ?D = Inr a" by blast
  have len: "length a = length data" using mapE_Inr_length [OF a] by simp
  have "a ! n < length cs
          \<and> (\<forall>j<length cs. euclidean (data ! n) (cs ! (a ! n)) \<le> euclidean (data ! n) (cs ! j))
          \<and> (\<forall>j<a ! n. euclidean (data ! n) (cs ! (a ! n)) < euclidean (data ! n) (cs ! j))"
    if n: "n < length data" for n
  proof -
    let ?row = "map (\<lambda>y. euclidean (data ! n) y) cs"
    have "argmin (?D ! n) = Inr (a ! n)" using mapE_Inr_nth [OF a, of n] n by simp
    then have am: "argmin ?row = Inr (a ! n)" using n by simp
    have "?row \<noteq> []" using ne by simp
    from argmin_first_min [OF this] am
    have m: "a ! n < length ?row" "\<forall>j<length ?row. ?row ! (a ! n) \<le> ?row ! j"
      "\<forall>j<a ! n. ?row ! (a ! n) < ?row ! j" by auto
    from m(1) have lt: "a ! n < length cs" by simp
    moreover have "\<forall>j<length cs. euclidean (data ! n) (cs ! (a ! n)) \<le> euclidean (data ! n) (cs ! j)"
      using m(2) lt by simp
    moreover have "\<forall>j<a ! n. euclidean (data ! n) (cs ! (a ! n)) < euclidean (data ! n) (cs ! j)"
    proof (intro allI impI)
      fix j assume "j < a ! n"
      then have "?row ! (a ! n) < ?row ! j" "j < length cs" using m(3) lt by auto
      then show "euclidean (data ! n) (cs ! (a ! n)) < euclidean (data ! n) (cs ! j)" using lt by simp
    qed
    ultimately show ?thesis by blast
  qed
  then show ?thesis using a len assms by (auto simp: assign_clusters_def pairwise_distances_def)
qed

lemma assign_clusters_Inl: "\<not> compatible data cs \<Longrightarrow> assign_clusters data cs = Inl ValueError"
  by (simp add: assign_clusters_def pairwise_distances_def)

lemma euclidean_1d [simp]: "euclidean [a] [b] = \<bar>a - b\<bar>"
  by (simp add: euclidean_def sq_dist_def)

subsection \<open>The convergence loop\<close>

lemma revise_centroids_length: "revise_centroids data k a = Inr cs \<Longrightarrow> length cs = nat k"
  by (auto simp: revise_centroids_def dest: mapE_Inr_length)

lemma kmeans_loop_Cons:
  "kmeans_loop data k (itr # rest) st = Inr st' \<longleftrightarrow>
     (\<exists>ca cs. assign_clusters data (centroids st) = Inr ca \<and> revise_centroids data k ca = Inr cs
        \<and> (if prev_cluster_assignment st = Some ca
             then st' = st\<lparr>centroids := cs, cluster_assignment := Some ca,
                           iterations := Suc (iterations st), stopped := True\<rparr>
             else \<exists>h'. (case record_heterogeneity st of
                           None \<Rightarrow> h' = None
                         | Some history \<Rightarrow> \<exists>score. compute_heterogeneity data k cs ca = Inr score
                                              \<and> h' = Some (history @ [score]))
                    \<and> kmeans_loop data k rest
                         (st\<lparr>centroids := cs, cluster_assignment := Some ca,
                              iterations := Suc (iterations st),
                              record_heterogeneity := h', prev_cluster_assignment := Some ca\<rparr>)
                       = Inr st'))"
  by (cases "record_heterogeneity st") (auto simp: bindE_eq_Inr Let_def)

lemma kmeans_loop_ConsE:
  assumes "kmeans_loop data k (itr # rest) st = Inr st'"
  obtains (break) ca cs where
      "assign_clusters data (centroids st) = Inr ca" "revise_centroids data k ca = Inr cs"
      "prev_cluster_assignment st = Some ca"
      "st' = st\<lparr>centroids := cs, cluster_assignment := Some ca,
                    iterations := Suc (iterations st), stopped := True\<rparr>"
  | (continue) ca cs h' where
      "assign_clusters data (centroids st) = Inr ca" "revise_centroids data k ca = Inr cs"
      "prev_cluster_assignment st \<noteq> Some ca"
      "case record_heterogeneity st of
         None \<Rightarrow> h' = None
       | Some history \<Rightarrow> \<exists>score. compute_heterogeneity data k cs ca = Inr score
                            \<and> h' = Some (history @ [score])"
      "kmeans_loop data k rest
         (st\<lparr>centroids := cs, cluster_assignment := Some ca,
              iterations := Suc (iterations st),
              record_heterogeneity := h', prev_cluster_assignment := Some ca\<rparr>) = Inr st'"
proof -
  from assms obtain ca cs where
    a: "assign_clusters data (centroids st) = Inr ca" and r: "revise_centroids data k ca = Inr cs"
    and c: "if prev_cluster_assignment st = Some ca
             then st' = st\<lparr>centroids := cs, cluster_assignment := Some ca,
                           iterations := Suc (iterations st), stopped := True\<rparr>
             else \<exists>h'. (case record_heterogeneity st of
                           None \<Rightarrow> h' = None
                         | Some history \<Rightarrow> \<exists>score. compute_heterogeneity data k cs ca = Inr score
                                              \<and> h' = Some (history @ [score]))
                    \<and> kmeans_loop data k rest
                         (st\<lparr>centroids := cs, cluster_assignment := Some ca,
                              iterations := Suc (iterations st),
                              record_heterogeneity := h', prev_cluster_assignment := Some ca\<rparr>)
                       = Inr st'"
    unfolding kmeans_loop_Cons by blast
  show thesis
  proof (cases "prev_cluster_assignment st = Some ca")
    case True
    with c have "st' = st\<lparr>centroids := cs, cluster_assignment := Some ca,
                           iterations := Suc (iterations st), stopped := True\<rparr>" by simp
    with a r True show thesis by (rule break)
  next
    case False
    with c obtain h' where
      "case record_heterogeneity st of
         None \<Rightarrow> h' = None
       | Some history \<Rightarrow> \<exists>score. compute_heterogeneity data k cs ca = Inr score
                            \<and> h' = Some (history @ [score])"
      "kmeans_loop data k rest
         (st\<lparr>centroids := cs, cluster_assignment := Some ca,
              iterations := Suc (iterations st),
              record_heterogeneity := h', prev_cluster_assignment := Some ca\<rparr>) = Inr st'"
      by auto
    with a r False show thesis by (rule continue)
  qed
qed

lemma kmeans_loop_iterations:
  "kmeans_loop data k its st = Inr st' \<Longrightarrow>
     iterations st' \<le> iterations st + length its \<and> (its \<noteq> [] \<longrightarrow> iterations st < iterations st')
     \<and> iterations st \<le> iterations st'"
proof (induction its arbitrary: st)
  case Nil
  then show ?case by simp
next
  case (Cons itr rest)
  from Cons.prems show ?case
  proof (cases rule: kmeans_loop_ConsE)
    case (break ca cs)
    then show ?thesis by simp
  next
    case (continue ca cs h')
    from Cons.IH [OF continue(5)] show ?thesis by simp
  qed
qed

text \<open>After at least one iteration: the last assignment and the centroids revised from it.\<close>

lemma kmeans_loop_result:
  assumes "kmeans_loop data k its st = Inr st'" "its \<noteq> []"
  shows "\<exists>a. cluster_assignment st' = Some a \<and> revise_centroids data k a = Inr (centroids st')
           \<and> length a = length data
           \<and> (\<forall>n<length data. a ! n < length (centroids st) \<or> a ! n < nat k)"
  using assms
proof (induction its arbitrary: st)
  case Nil
  then show ?case by simp
next
  case (Cons itr rest)
  from Cons.prems(1) show ?case
  proof (cases rule: kmeans_loop_ConsE)
    case (break ca cs)
    have "compatible data (centroids st)"
      using break(1) assign_clusters_Inl [of data "centroids st"] by auto
    from assign_clusters_Inr [OF this] break(1)
    have "length ca = length data" "\<forall>n<length data. ca ! n < length (centroids st)" by auto
    with break show ?thesis by simp
  next
    case (continue ca cs h')
    have "compatible data (centroids st)"
      using continue(1) assign_clusters_Inl [of data "centroids st"] by auto
    from assign_clusters_Inr [OF this] continue(1)
    have ca: "length ca = length data" "\<forall>n<length data. ca ! n < length (centroids st)" by auto
    show ?thesis
    proof (cases rest)
      case Nil
      with continue(5) ca continue(2) show ?thesis by auto
    next
      case (Cons i r)
      then have "rest \<noteq> []" by simp
      from Cons.IH [OF continue(5) this] revise_centroids_length [OF continue(2)]
      show ?thesis by auto
    qed
  qed
qed


lemma kmeans_loop_record:
  assumes "kmeans_loop data k its st = Inr st'" "record_heterogeneity st = Some history"
    "\<not> stopped st"
  shows "\<exists>new. record_heterogeneity st' = Some (history @ new)
           \<and> length new + (if stopped st' then 1 else 0) = iterations st' - iterations st
           \<and> (stopped st' \<longrightarrow> prev_cluster_assignment st \<noteq> None \<or> iterations st + 2 \<le> iterations st')"
  using assms
proof (induction its arbitrary: st history)
  case Nil
  then show ?case by simp
next
  case (Cons itr rest)
  from Cons.prems(1) show ?case
  proof (cases rule: kmeans_loop_ConsE)
    case (break ca cs)
    with Cons.prems show ?thesis by simp
  next
    case (continue ca cs h')
    let ?st2 = "st\<lparr>centroids := cs, cluster_assignment := Some ca,
              iterations := Suc (iterations st),
              record_heterogeneity := h', prev_cluster_assignment := Some ca\<rparr>"
    from continue(4) Cons.prems(2) obtain score where h': "h' = Some (history @ [score])" by auto
    have "record_heterogeneity ?st2 = Some (history @ [score])" "\<not> stopped ?st2"
      using h' Cons.prems(3) by simp_all
    from Cons.IH [OF continue(5) this] obtain new where
      new: "record_heterogeneity st' = Some ((history @ [score]) @ new)"
        "length new + (if stopped st' then 1 else 0) = iterations st' - iterations ?st2"
      by blast
    have "iterations ?st2 \<le> iterations st'"
      using kmeans_loop_iterations [OF continue(5)] by blast
    then have le: "Suc (iterations st) \<le> iterations st'" by simp
    have "record_heterogeneity st' = Some (history @ (score # new))" using new(1) by simp
    moreover have "length (score # new) + (if stopped st' then 1 else 0) = iterations st' - iterations st"
      using new(2) le by simp
    moreover have "stopped st' \<longrightarrow> iterations st + 2 \<le> iterations st'"
      using new(2) le by (auto split: if_splits)
    ultimately show ?thesis by blast
  qed
qed

lemma run_example:
  "run_kmeans_state [[0], [1], [10]] 2 [[0], [1]] 5 (Some []) =
     Inr \<lparr>centroids = [[1 / 2], [10]], prev_cluster_assignment = Some [0, 0, 1],
          cluster_assignment = Some [0, 0, 1], record_heterogeneity = Some [81 / 2, 1 / 2],
          iterations = 3, stopped = True\<rparr>"
  by (simp add: run_kmeans_state_def upt_rec assign_clusters_def
      pairwise_distances_def compatible_def argmin_def revise_centroids_def members_def cluster_rows_def mean_axis0_def
      compute_heterogeneity_def power2_eq_square)

subsection \<open>Initialisation and the driver\<close>

lemma mapE_row_at:
  "\<forall>i\<in>set idxs. i < length data \<Longrightarrow>
     \<exists>cs. mapE (row_at data) idxs = Inr cs \<and> length cs = length idxs \<and> set cs \<subseteq> set data"
proof (induction idxs)
  case Nil
  then show ?case by simp
next
  case (Cons i idxs)
  then obtain cs where "mapE (row_at data) idxs = Inr cs" "length cs = length idxs"
    "set cs \<subseteq> set data" by auto
  moreover have "row_at data i = Inr (data ! i)" "data ! i \<in> set data"
    using Cons.prems by (simp_all add: row_at_def)
  ultimately show ?case by simp
qed

lemma counter_library_draws:
  "0 < n \<longrightarrow> length (fst (draw_array counter_library g n k)) = k
     \<and> (\<forall>i\<in>set (fst (draw_array counter_library g n k)). i < n)"
  by (simp add: counter_library_def)







lemmas run_simps =
  run_kmeans_def run_kmeans_state_def upt_rec assign_clusters_def
  pairwise_distances_def compatible_def argmin_def revise_centroids_def members_def cluster_rows_def mean_axis0_def
  compute_heterogeneity_def power2_eq_square

lemma counter_library_fields:
  "seeded counter_library s = nat s"
  "draw_array counter_library g n k = (map (\<lambda>j. (g + j) mod n) [0..<k], g + k)"
  "draw_scalar counter_library g n = (g mod n, Suc g)"
  "draw_choice counter_library g n p = (first_max p, Suc g)"
  "time_now counter_library i = 0"
  "rows_at_false counter_library m = Inr []"
  by (simp_all add: counter_library_def)

lemmas init_simps =
  get_initial_centroids_def reseed_def random_seed_def randint_def counter_library_fields row_at_def




lemma smart_example:
  "smart_initialize counter_library 0 [[0], [1], [10]] 2 (Some 0) = Inr ([[0], [10]], 2)"
proof -
  have z: "replicate (nat 2) (replicate (length (hd [[0], [1], [10::real]])) (0::real)) = [[0], [0]]"
    by (simp add: numeral_2_eq_2)
  have u: "[1..<nat 2] = [1]" by (simp add: upt_rec)
  have p: "pairwise_distances [[0], [1], [10]] [[0]] = Inr [[0], [1], [10]]"
    by (simp add: pairwise_distances_def compatible_def)
  have q: "pairwise_distances [[0], [1], [10]] [[0], [10]] = Inr [[0, 10], [1, 9], [10, 0]]"
    by (simp add: pairwise_distances_def compatible_def)
  have f: "first_max [0, 1 / 101, 100 / 101] = 2"
    by (simp add: first_max_def)
  show ?thesis
    unfolding smart_initialize_def z u
    by (simp add: reseed_def random_seed_def counter_library_fields row_at_def p q f
        row_min_def Let_def)
qed

subsection \<open>Heterogeneity as a sum of squared distances\<close>

lemma sq_dist_nonneg: "0 \<le> sq_dist x y"
  unfolding sq_dist_def by (rule sum_list_nonneg) auto


lemma euclidean_sq [simp]: "(euclidean x y)\<^sup>2 = sq_dist x y"
  by (simp add: euclidean_def sq_dist_nonneg)











subsection \<open>A step of Lloyd's algorithm\<close>

















subsection \<open>Claims\<close>



text \<open>
  C6. With \<open>num_runs \<le> 0\<close> the driver runs no trial and raises nothing: it returns the pair
  \<open>(None, None)\<close>.
\<close>

theorem kmeans_multiple_runs_no_runs:
  "num_runs \<le> 0 \<Longrightarrow>
     kmeans_multiple_runs lib data k maxiter num_runs seed_list = Inr (None, None)"
  by (simp add: kmeans_multiple_runs_def kmeans_multiple_runs_state_def)

theorem kmeans_multiple_runs_no_runs_witness:
  "kmeans_multiple_runs counter_library [[0], [1], [10]] 2 5 (- 1) (Some [1, 2, 3]) = Inr (None, None)"
  using kmeans_multiple_runs_no_runs [of "- 1" counter_library "[[0], [1], [10]]" 2 5 "Some [1, 2, 3]"]
  by simp

theorem kmeans_multiple_runs_no_runs_counterexample:
  "\<not> (\<exists>e. kmeans_multiple_runs counter_library [[0], [1], [10]] 2 5 0 None = Inl e)"
  by (simp add: kmeans_multiple_runs_def kmeans_multiple_runs_state_def)



text \<open>
  C3 (amended). For \<open>maxiter \<ge> 1\<close>, a run of \<open>run_kmeans\<close> that raises nothing executes
  at least one and at most \<open>maxiter\<close> iterations and returns \<open>k\<close> centroids with an assignment
  that has exactly one label per data point, each label below the larger of \<open>k\<close> and the
  number of initial centroids.
\<close>

theorem run_kmeans_assignment:
  assumes "0 < maxiter" "run_kmeans_state data k c0 maxiter history = Inr st"
  shows "0 < iterations st \<and> iterations st \<le> nat maxiter
     \<and> (\<exists>a. run_kmeans data k c0 maxiter history = Inr (centroids st, Some a)
            \<and> length a = length data \<and> length (centroids st) = nat k
            \<and> (\<forall>n<length data. a ! n < max (length c0) (nat k)))"
proof -
  have ne: "[0..<nat maxiter] \<noteq> []" using assms(1) by simp
  from kmeans_loop_iterations [OF assms(2) [unfolded run_kmeans_state_def]] ne
  have it: "0 < iterations st" "iterations st \<le> nat maxiter" by auto
  from kmeans_loop_result [OF assms(2) [unfolded run_kmeans_state_def] ne]
  obtain a where a: "cluster_assignment st = Some a" "revise_centroids data k a = Inr (centroids st)"
    "length a = length data" "\<forall>n<length data. a ! n < length c0 \<or> a ! n < nat k"
    by auto
  have "run_kmeans data k c0 maxiter history = Inr (centroids st, Some a)"
    using assms(2) a(1) by (simp add: run_kmeans_def)
  moreover have "length (centroids st) = nat k" using a(2) by (rule revise_centroids_length)
  moreover have "\<forall>n<length data. a ! n < max (length c0) (nat k)" using a(4) by auto
  ultimately show ?thesis using it a(3) by blast
qed

theorem run_kmeans_assignment_witness:
  "(0::int) < 5
   \<and> (\<exists>st a. run_kmeans_state [[0], [1], [10]] 2 [[0], [1]] 5 (Some []) = Inr st
          \<and> iterations st = 3
          \<and> run_kmeans [[0], [1], [10]] 2 [[0], [1]] 5 (Some []) = Inr (centroids st, Some a)
          \<and> length a = 3)"
  using run_kmeans_assignment [OF _ run_example] run_example by auto

text \<open>
  C3 as stated fails for \<open>maxiter = 0\<close>: the loop body never runs and the assignment
  returned is \<open>None\<close>.
\<close>

theorem run_kmeans_assignment_counterexample:
  "run_kmeans [[0], [1], [10]] 2 [[0], [1]] 0 None = Inr ([[0], [1]], None)"
  by (simp add: run_kmeans_def run_kmeans_state_def)

text \<open>
  C4 (amended). With a list to record into, a run of \<open>run_kmeans\<close> that raises nothing appends
  one heterogeneity value per iteration, except for the iteration that leaves the loop on
  convergence, which is never the first. The value of the first iteration is recorded: it
  is the heterogeneity of the first assignment with the centroids revised from it.
\<close>

theorem run_kmeans_records:
  assumes "run_kmeans_state data k c0 maxiter (Some history) = Inr st"
  shows "\<exists>new. record_heterogeneity st = Some (history @ new)
     \<and> length new + (if stopped st then 1 else 0) = iterations st
     \<and> (stopped st \<longrightarrow> 2 \<le> iterations st)
     \<and> (0 < maxiter \<longrightarrow>
          (\<exists>a cs. assign_clusters data c0 = Inr a \<and> revise_centroids data k a = Inr cs
             \<and> compute_heterogeneity data k cs a = Inr (hd new) \<and> new \<noteq> []))"
proof -
  let ?st0 = "\<lparr>centroids = c0, prev_cluster_assignment = None,
        cluster_assignment = None, record_heterogeneity = Some history,
        iterations = 0, stopped = False\<rparr>"
  have loop: "kmeans_loop data k [0..<nat maxiter] ?st0 = Inr st"
    using assms by (simp add: run_kmeans_state_def)
  from kmeans_loop_record [OF loop] obtain new where
    new: "record_heterogeneity st = Some (history @ new)"
      "length new + (if stopped st then 1 else 0) = iterations st"
      "stopped st \<longrightarrow> 2 \<le> iterations st"
    by auto
  have "\<exists>a cs. assign_clusters data c0 = Inr a \<and> revise_centroids data k a = Inr cs
             \<and> compute_heterogeneity data k cs a = Inr (hd new) \<and> new \<noteq> []"
    if "0 < maxiter"
  proof -
    from that have "[0..<nat maxiter] = 0 # [1..<nat maxiter]" by (simp add: upt_rec)
    with loop have "kmeans_loop data k (0 # [1..<nat maxiter]) ?st0 = Inr st" by simp
    then show ?thesis
    proof (cases rule: kmeans_loop_ConsE)
      case (break ca cs)
      then show ?thesis by simp
    next
      case (continue ca cs h')
      from continue(4) obtain score where
        score: "compute_heterogeneity data k cs ca = Inr score" "h' = Some (history @ [score])"
        by auto
      from kmeans_loop_record [OF continue(5)] score(2) obtain new' where
        "record_heterogeneity st = Some ((history @ [score]) @ new')" by auto
      with new(1) have "new = score # new'" by simp
      with continue(1,2) score(1) show ?thesis by auto
    qed
  qed
  with new show ?thesis by blast
qed

theorem run_kmeans_records_witness:
  "\<exists>st. run_kmeans_state [[0], [1], [10]] 2 [[0], [1]] 5 (Some []) = Inr st
      \<and> record_heterogeneity st = Some [81 / 2, 1 / 2] \<and> iterations st = 3 \<and> stopped st"
  using run_kmeans_records [OF run_example] run_example by auto

text \<open>
  C4 as stated fails: after a single iteration the list holds one value.
\<close>

theorem run_kmeans_records_counterexample:
  "recorded [[0], [1], [10]] 2 [[0], [1]] 1 [] = Inr [81 / 2]"
  by (simp add: recorded_def run_kmeans_state_def upt_rec assign_clusters_def
      pairwise_distances_def compatible_def argmin_def revise_centroids_def members_def cluster_rows_def mean_axis0_def
      compute_heterogeneity_def power2_eq_square)

text \<open>
  C5 (amended). \<open>get_initial_centroids\<close> checks nothing about \<open>k\<close>. On a data set with at
  least one point, with a generator that returns \<open>k\<close> indices below the number of points and
  a seed NumPy accepts (or none), every \<open>k \<ge> 0\<close>, also \<open>k = 0\<close> and \<open>k\<close> above the number of
  points, yields \<open>k\<close> centroids, each a row of the data. A negative \<open>k\<close> raises \<open>ValueError\<close>
  in the random draw.
\<close>

theorem get_initial_centroids_any_k:
  assumes "\<forall>g n k. 0 < n \<longrightarrow> length (fst (draw_array lib g n k)) = k
             \<and> (\<forall>i\<in>set (fst (draw_array lib g n k)). i < n)"
    and "data \<noteq> []"
    and "seed = None \<or> (\<exists>s. seed = Some s \<and> 0 \<le> s \<and> s < 2 ^ 32)"
  shows "(0 \<le> k \<longrightarrow> (\<exists>cs g'. get_initial_centroids lib g data k seed = Inr (cs, g')
                     \<and> length cs = nat k \<and> set cs \<subseteq> set data))
       \<and> (k < 0 \<longrightarrow> get_initial_centroids lib g data k seed = Inl ValueError)"
proof (intro conjI impI)
  assume k: "0 \<le> k"
  from assms(3) obtain g1 where g1: "reseed lib g seed = Inr g1"
    by (auto simp: reseed_def random_seed_def)
  obtain idxs g2 where d: "draw_array lib g1 (length data) (nat k) = (idxs, g2)"
    by (cases "draw_array lib g1 (length data) (nat k)")
  have "0 < length data" using assms(2) by simp
  with assms(1) d have idxs: "length idxs = nat k" "\<forall>i\<in>set idxs. i < length data"
    by (metis fst_conv)+
  from mapE_row_at [OF idxs(2)] obtain cs where
    cs: "mapE (row_at data) idxs = Inr cs" "length cs = length idxs" "set cs \<subseteq> set data"
    by blast
  have "get_initial_centroids lib g data k seed = Inr (cs, g2)"
    using g1 d cs(1) k assms(2) by (simp add: get_initial_centroids_def randint_def)
  with cs idxs show "\<exists>cs g'. get_initial_centroids lib g data k seed = Inr (cs, g')
                     \<and> length cs = nat k \<and> set cs \<subseteq> set data" by simp
next
  assume "k < 0"
  then show "get_initial_centroids lib g data k seed = Inl ValueError"
    by (cases "reseed lib g seed")
      (auto simp: get_initial_centroids_def randint_def reseed_def random_seed_def
        split: option.splits if_splits)
qed

theorem get_initial_centroids_any_k_witness:
  "\<exists>cs g'. get_initial_centroids counter_library 0 [[0], [1]] 3 (Some 7) = Inr (cs, g')
      \<and> length cs = 3 \<and> set cs \<subseteq> set [[0], [1]]"
proof -
  have a: "\<forall>g n k. 0 < n \<longrightarrow> length (fst (draw_array counter_library g n k)) = k
             \<and> (\<forall>i\<in>set (fst (draw_array counter_library g n k)). i < n)"
    using counter_library_draws by blast
  have b: "[[0], [1 :: real]] \<noteq> []" by simp
  have c: "Some (7 :: int) = None \<or> (\<exists>s. Some (7 :: int) = Some s \<and> 0 \<le> s \<and> s < 2 ^ 32)" by simp
  from get_initial_centroids_any_k [OF a b c, of 3 0] show ?thesis by simp
qed

text \<open>
  C5 as stated fails: with two points and \<open>k = 3\<close> three centroids are returned, one
  point twice.
\<close>

theorem get_initial_centroids_any_k_counterexample:
  "get_initial_centroids counter_library 0 [[0], [1]] 3 (Some 0) = Inr ([[0], [1], [0]], 3)"
  by (simp add: get_initial_centroids_def reseed_def random_seed_def randint_def
      counter_library_def upt_rec row_at_def)



text \<open>
  C1. The trials of the driver start from \<open>get_initial_centroids\<close>, not from
  \<open>smart_initialize\<close>, although the comment above the call announces k-means++. On the points
  0, 1, 10 with \<open>k = 2\<close>, seed 0 and one iteration, the driver returns what \<open>run_kmeans\<close>
  computes from the uniformly drawn centroids 0 and 1; from the centroids 0 and 10 of
  \<open>smart_initialize\<close> the result would be another one.
\<close>

theorem kmeans_multiple_runs_random_initialisation:
  "kmeans_multiple_runs counter_library [[0], [1], [10]] 2 1 1 (Some [0])
     = Inr (Some [[0], [11 / 2]], Some [0, 1, 1])
   \<and> get_initial_centroids counter_library 0 [[0], [1], [10]] 2 (Some 0) = Inr ([[0], [1]], 2)
   \<and> run_kmeans [[0], [1], [10]] 2 [[0], [1]] 1 None = Inr ([[0], [11 / 2]], Some [0, 1, 1])
   \<and> smart_initialize counter_library 0 [[0], [1], [10]] 2 (Some 0) = Inr ([[0], [10]], 2)
   \<and> run_kmeans [[0], [1], [10]] 2 [[0], [10]] 1 None = Inr ([[1 / 2], [10]], Some [0, 0, 1])"
proof (intro conjI)
  show "kmeans_multiple_runs counter_library [[0], [1], [10]] 2 1 1 (Some [0])
     = Inr (Some [[0], [11 / 2]], Some [0, 1, 1])"
    by (simp add: kmeans_multiple_runs_def kmeans_multiple_runs_state_def below_def
        run_trial_def final_heterogeneity_def init_simps run_simps)
  show "get_initial_centroids counter_library 0 [[0], [1], [10]] 2 (Some 0) = Inr ([[0], [1]], 2)"
    by (simp add: init_simps upt_rec)
  show "run_kmeans [[0], [1], [10]] 2 [[0], [1]] 1 None = Inr ([[0], [11 / 2]], Some [0, 1, 1])"
    by (simp add: run_simps)
  show "smart_initialize counter_library 0 [[0], [1], [10]] 2 (Some 0) = Inr ([[0], [10]], 2)"
    by (rule smart_example)
  show "run_kmeans [[0], [1], [10]] 2 [[0], [10]] 1 None = Inr ([[1 / 2], [10]], Some [0, 0, 1])"
    by (simp add: run_simps)
qed







end
